theory Spec2Isabelle
  imports Complex_Main "HOL-Library.Monad_Syntax"
begin

section \<open>JavaScript values met by gpxParser.js\<close>

text \<open>
  The two exported functions of \<^verbatim>\<open>src/gpxParser.js\<close> navigate the object that the XML
  parser hands to its callback. Such an object holds strings, arrays and nested objects
  only; \<^verbatim>\<open>undefined\<close> appears as the result of reading a member that is not there and
  \<^verbatim>\<open>null\<close> as the parser's result for blank input. Objects are association lists; a
  lookup takes the first entry of a key.
\<close>

datatype xnode =
    XUndefined
  | XNull
  | XStr string
  | XArr "xnode list"
  | XObj "(string \<times> xnode) list"

text \<open>
  Everything the bodies of the two \<^verbatim>\<open>try\<close> blocks can throw is a \<^verbatim>\<open>TypeError\<close>
  (a member read on \<^verbatim>\<open>undefined\<close> or \<^verbatim>\<open>null\<close>, a call of something that is not a
  function, a conversion of an object without \<^verbatim>\<open>toString\<close>). A computation inside a
  \<^verbatim>\<open>try\<close> block is therefore an \<open>option\<close>: \<open>None\<close> is "a TypeError was thrown".
\<close>

text \<open>\<^verbatim>\<open>v.k\<close> and \<^verbatim>\<open>v["k"]\<close> for the member names the source reads (\<^verbatim>\<open>gpx\<close>, \<^verbatim>\<open>trk\<close>,
  \<^verbatim>\<open>trkseg\<close>, \<^verbatim>\<open>trkpt\<close>, \<^verbatim>\<open>$\<close>, \<^verbatim>\<open>lat\<close>, \<^verbatim>\<open>lon\<close>, \<^verbatim>\<open>ele\<close>, \<^verbatim>\<open>time\<close>, \<^verbatim>\<open>extensions\<close>,
  \<^verbatim>\<open>gpxtpx:TrackPointExtension\<close>, \<^verbatim>\<open>gpxtpx:hr\<close>, \<^verbatim>\<open>metadata\<close>, \<^verbatim>\<open>name\<close>, \<^verbatim>\<open>desc\<close>,
  \<^verbatim>\<open>author\<close>): none of them is a property that strings, arrays or plain objects inherit,
  so on a string or an array the read gives \<^verbatim>\<open>undefined\<close>.\<close>

fun getProp :: "xnode \<Rightarrow> string \<Rightarrow> xnode option" where
  "getProp XUndefined k = None"
| "getProp XNull k = None"
| "getProp (XStr s) k = Some XUndefined"
| "getProp (XArr xs) k = Some XUndefined"
| "getProp (XObj kvs) k = Some (case map_of kvs k of None \<Rightarrow> XUndefined | Some v \<Rightarrow> v)"

text \<open>\<^verbatim>\<open>v[0]\<close>: the first element of an array, the first character of a string, the
  member \<^verbatim>\<open>"0"\<close> of an object; \<^verbatim>\<open>undefined\<close> when there is none.\<close>

fun index0 :: "xnode \<Rightarrow> xnode option" where
  "index0 XUndefined = None"
| "index0 XNull = None"
| "index0 (XStr s) = Some (case s of [] \<Rightarrow> XUndefined | c # _ \<Rightarrow> XStr [c])"
| "index0 (XArr xs) = Some (case xs of [] \<Rightarrow> XUndefined | x # _ \<Rightarrow> x)"
| "index0 (XObj kvs) = Some (case map_of kvs ''0'' of None \<Rightarrow> XUndefined | Some v \<Rightarrow> v)"

text \<open>Truthiness, as \<^verbatim>\<open>if\<close>, \<^verbatim>\<open>&&\<close> and \<^verbatim>\<open>?:\<close> test it.\<close>

fun truthy :: "xnode \<Rightarrow> bool" where
  "truthy XUndefined = False"
| "truthy XNull = False"
| "truthy (XStr s) = (s \<noteq> [])"
| "truthy (XArr xs) = True"
| "truthy (XObj kvs) = True"

text \<open>
  \<^verbatim>\<open>ToString\<close>, which \<^verbatim>\<open>parseFloat\<close>, \<^verbatim>\<open>parseInt\<close> and \<^verbatim>\<open>new Date\<close> apply to their
  argument. An array is joined with commas, \<^verbatim>\<open>undefined\<close> and \<^verbatim>\<open>null\<close> elements giving
  the empty string. What an object built by the parser converts to is a property of the
  parser (the text \<^verbatim>\<open>[object Object]\<close> for an ordinary object, a TypeError for an object
  created without a prototype); it is the parameter \<open>os\<close>.
\<close>

fun ToString :: "string option \<Rightarrow> xnode \<Rightarrow> string option"
  and joinElems :: "string option \<Rightarrow> xnode list \<Rightarrow> string option" where
  "ToString os XUndefined = Some ''undefined''"
| "ToString os XNull = Some ''null''"
| "ToString os (XStr s) = Some s"
| "ToString os (XArr xs) = joinElems os xs"
| "ToString os (XObj kvs) = os"
| "joinElems os [] = Some []"
| "joinElems os [x] = (if x = XUndefined \<or> x = XNull then Some [] else ToString os x)"
| "joinElems os (x # y # ys) = do {
     s \<leftarrow> (if x = XUndefined \<or> x = XNull then Some [] else ToString os x);
     r \<leftarrow> joinElems os (y # ys);
     Some (s @ '','' @ r) }"

section \<open>Numbers: parseFloat and parseInt\<close>

text \<open>
  A JavaScript number is kept as the exact value of the decimal text it was read from:
  \<open>Finite q\<close> with \<open>q\<close> rational. The rounding of that value to a binary64 float (and
  with it the sign of zero and overflow to infinity) is not modelled. A character of a
  string stands for a UTF-16 code unit below 256.
\<close>

datatype jsnum = NaN | Infinity | NegInfinity | Finite rat

definition isWhiteSpace :: "char \<Rightarrow> bool" where
  \<comment> \<open>tab, line feed, vertical tab, form feed, carriage return, space, no-break space\<close>
  "isWhiteSpace c =
     (c \<in> set [CHR 0x09, CHR 0x0A, CHR 0x0B, CHR 0x0C, CHR 0x0D, CHR '' '', CHR 0xA0])"

definition isDigit :: "char \<Rightarrow> bool" where
  "isDigit c = (c \<in> set ''0123456789'')"

definition digitVal :: "char \<Rightarrow> nat" where
  "digitVal c = of_char c - of_char CHR ''0''"

definition digitsVal :: "string \<Rightarrow> nat" where
  "digitsVal ds = foldl (\<lambda>n c. 10 * n + digitVal c) 0 ds"

text \<open>An optional sign in front of a numeral: whether it is \<^verbatim>\<open>-\<close>, and the rest.\<close>

fun signOf :: "string \<Rightarrow> bool \<times> string" where
  "signOf [] = (False, [])"
| "signOf (c # r) =
     (if c = CHR ''-'' then (True, r) else if c = CHR ''+'' then (False, r) else (False, c # r))"

text \<open>The value of an exponent part \<^verbatim>\<open>e[+-]digits\<close> at the head of the text; \<open>0\<close> when the
  text does not start with a complete exponent part.\<close>

fun exponentPart :: "string \<Rightarrow> int" where
  "exponentPart [] = 0"
| "exponentPart (c # r) =
     (if c = CHR ''e'' \<or> c = CHR ''E''
      then (let (neg, d) = signOf r; n = int (digitsVal (takeWhile isDigit d))
            in if neg then - n else n)
      else 0)"

text \<open>
  \<^verbatim>\<open>parseFloat\<close> on a string: skip leading white space, read the longest prefix that is a
  decimal literal (\<^verbatim>\<open>Infinity\<close>, \<^verbatim>\<open>digits[.digits][exponent]\<close> or \<^verbatim>\<open>.digits[exponent]\<close>,
  with an optional sign); \<^verbatim>\<open>NaN\<close> when there is no such prefix.
\<close>

definition parseFloatStr :: "string \<Rightarrow> jsnum" where
  "parseFloatStr s =
     (let (neg, u) = signOf (dropWhile isWhiteSpace s) in
      if take 8 u = ''Infinity'' then (if neg then NegInfinity else Infinity)
      else
        let ip = takeWhile isDigit u;
            r1 = dropWhile isDigit u;
            dot = (r1 \<noteq> [] \<and> hd r1 = CHR ''.'');
            fp = (if dot then takeWhile isDigit (tl r1) else []);
            r2 = (if dot then dropWhile isDigit (tl r1) else r1);
            ex = exponentPart r2;
            m = (of_nat (digitsVal (ip @ fp)) / 10 ^ length fp
                  * (if 0 \<le> ex then 10 ^ nat ex else 1 / 10 ^ nat (- ex)) :: rat)
        in if ip = [] \<and> fp = [] then NaN else Finite (if neg then - m else m))"

text \<open>
  \<^verbatim>\<open>parseInt\<close> on a string with no radix given: skip leading white space, an optional
  sign, radix 16 after \<^verbatim>\<open>0x\<close> or \<^verbatim>\<open>0X\<close> and 10 otherwise, then the longest run of digits
  of that radix; \<^verbatim>\<open>NaN\<close> when the run is empty.
\<close>

definition hexVal :: "char \<Rightarrow> nat option" where
  "hexVal c =
     (if isDigit c then Some (digitVal c)
      else if c \<in> set ''abcdef'' then Some (of_char c - of_char CHR ''a'' + 10)
      else if c \<in> set ''ABCDEF'' then Some (of_char c - of_char CHR ''A'' + 10)
      else None)"

definition parseIntStr :: "string \<Rightarrow> jsnum" where
  "parseIntStr s =
     (let (neg, u) = signOf (dropWhile isWhiteSpace s);
          hex = (take 2 u = ''0x'' \<or> take 2 u = ''0X'');
          z = (if hex then takeWhile (\<lambda>c. hexVal c \<noteq> None) (drop 2 u) else takeWhile isDigit u);
          n = (if hex then foldl (\<lambda>n c. 16 * n + the (hexVal c)) 0 z else digitsVal z)
      in if z = [] then NaN else Finite (of_int (if neg then - int n else int n)))"

section \<open>The collaborators of the module\<close>

text \<open>
  \<^verbatim>\<open>fs.readFile\<close>, the XML parser and the process's locale are outside the module. They are
  the fields of an environment:
  \<^item> \<open>readFile\<close>: the text of the file at a path, or the loader's error;
  \<^item> \<open>parseString\<close>: the parser's result for a text, or the parser's error;
  \<^item> \<open>objectToString\<close>: what \<^verbatim>\<open>ToString\<close> gives on an object the parser built (see
    \<open>ToString\<close>);
  \<^item> \<open>dateToLocaleString\<close>: \<^verbatim>\<open>new Date(s).toLocaleString()\<close> for a text \<open>s\<close>, in the
    process's locale and time zone (the text \<^verbatim>\<open>Invalid Date\<close> when \<open>s\<close> is no date).
  The source applies \<^verbatim>\<open>new Date\<close> to truthy values only, that is to non-empty strings,
  arrays and objects; on those it parses the value's \<^verbatim>\<open>ToString\<close>.
\<close>

record ('e, 'p) env =
  readFile :: "string \<Rightarrow> 'e + string"
  parseString :: "string \<Rightarrow> 'p + xnode"
  objectToString :: "string option"
  dateToLocaleString :: "string \<Rightarrow> string"

definition parseFloat :: "('e, 'p) env \<Rightarrow> xnode \<Rightarrow> jsnum option" where
  "parseFloat env v = do { s \<leftarrow> ToString (objectToString env) v; Some (parseFloatStr s) }"

definition parseInt :: "('e, 'p) env \<Rightarrow> xnode \<Rightarrow> jsnum option" where
  "parseInt env v = do { s \<leftarrow> ToString (objectToString env) v; Some (parseIntStr s) }"

definition newDateToLocaleString :: "('e, 'p) env \<Rightarrow> xnode \<Rightarrow> string option" where
  "newDateToLocaleString env v =
     do { s \<leftarrow> ToString (objectToString env) v; Some (dateToLocaleString env s) }"

section \<open>getTrackPointsData\<close>

text \<open>The values a field of a track point record holds: \<^verbatim>\<open>null\<close>, a number or a string.\<close>

datatype jsval = JNull | JNum jsnum | JStr string

record trackPoint =
  lat :: jsval
  lon :: jsval
  heartRate :: jsval
  timestamp :: jsval
  elevation :: jsval

text \<open>Lines 55-58: the elevation, \<^verbatim>\<open>null\<close> unless \<^verbatim>\<open>point.ele && point.ele[0]\<close>.\<close>

definition elevationOf :: "('e, 'p) env \<Rightarrow> xnode \<Rightarrow> jsval option" where
  "elevationOf env point = do {
     e \<leftarrow> getProp point ''ele'';
     if truthy e then do {
       e0 \<leftarrow> index0 e;
       if truthy e0 then do { n \<leftarrow> parseFloat env e0; Some (JNum n) } else Some JNull }
     else Some JNull }"

text \<open>Lines 61-66: the time stamp, \<^verbatim>\<open>null\<close> unless \<^verbatim>\<open>point.time && point.time[0]\<close>.\<close>

definition timestampOf :: "('e, 'p) env \<Rightarrow> xnode \<Rightarrow> jsval option" where
  "timestampOf env point = do {
     t \<leftarrow> getProp point ''time'';
     if truthy t then do {
       t0 \<leftarrow> index0 t;
       if truthy t0 then do { s \<leftarrow> newDateToLocaleString env t0; Some (JStr s) } else Some JNull }
     else Some JNull }"

text \<open>The expression
  \<^verbatim>\<open>point.extensions[0]["gpxtpx:TrackPointExtension"][0]["gpxtpx:hr"][0]\<close>
  of lines 73-75 and 78-80, from the value of \<^verbatim>\<open>point.extensions\<close> on.\<close>

definition hrPath :: "xnode \<Rightarrow> xnode option" where
  "hrPath x = do {
     x0 \<leftarrow> index0 x;
     w \<leftarrow> getProp x0 ''gpxtpx:TrackPointExtension'';
     w0 \<leftarrow> index0 w;
     h \<leftarrow> getProp w0 ''gpxtpx:hr'';
     index0 h }"

text \<open>Lines 70-82: the heart rate. Only \<^verbatim>\<open>point.extensions\<close> is tested before the
  nested members are read.\<close>

definition heartRateOf :: "('e, 'p) env \<Rightarrow> xnode \<Rightarrow> jsval option" where
  "heartRateOf env point = do {
     x \<leftarrow> getProp point ''extensions'';
     if truthy x then do {
       h0 \<leftarrow> hrPath x;
       if truthy h0 then do { h1 \<leftarrow> hrPath x; n \<leftarrow> parseInt env h1; Some (JNum n) }
       else Some JNull }
     else Some JNull }"

text \<open>Lines 51 and 52: \<^verbatim>\<open>parseFloat(point.$.lat)\<close> and \<^verbatim>\<open>parseFloat(point.$.lon)\<close>.\<close>

definition coordinateOf :: "('e, 'p) env \<Rightarrow> xnode \<Rightarrow> string \<Rightarrow> jsnum option" where
  "coordinateOf env point k = do {
     a \<leftarrow> getProp point ''$'';
     v \<leftarrow> getProp a k;
     parseFloat env v }"

text \<open>Lines 50-85: the callback of \<^verbatim>\<open>trackPoints.map\<close>.\<close>

definition pointRecord :: "('e, 'p) env \<Rightarrow> xnode \<Rightarrow> trackPoint option" where
  "pointRecord env point = do {
     lat \<leftarrow> coordinateOf env point ''lat'';
     lon \<leftarrow> coordinateOf env point ''lon'';
     elevation \<leftarrow> elevationOf env point;
     timestamp \<leftarrow> timestampOf env point;
     heartRate \<leftarrow> heartRateOf env point;
     Some \<lparr>lat = JNum lat, lon = JNum lon, heartRate = heartRate,
           timestamp = timestamp, elevation = elevation\<rparr> }"

text \<open>\<^verbatim>\<open>Array.prototype.map\<close>: the callback runs on the elements in order and the first
  exception ends the call. On anything but an array, \<^verbatim>\<open>.map\<close> is not a function and
  calling it throws.\<close>

fun mapInOrder :: "('a \<Rightarrow> 'b option) \<Rightarrow> 'a list \<Rightarrow> 'b list option" where
  "mapInOrder f [] = Some []"
| "mapInOrder f (x # xs) = do { y \<leftarrow> f x; ys \<leftarrow> mapInOrder f xs; Some (y # ys) }"

fun arrayMap :: "(xnode \<Rightarrow> 'b option) \<Rightarrow> xnode \<Rightarrow> 'b list option" where
  "arrayMap f (XArr xs) = mapInOrder f xs"
| "arrayMap f v = None"

text \<open>Line 49: \<^verbatim>\<open>result.gpx.trk[0].trkseg[0].trkpt\<close>.\<close>

definition trackPointsPath :: "xnode \<Rightarrow> xnode option" where
  "trackPointsPath result = do {
     gpx \<leftarrow> getProp result ''gpx'';
     trk \<leftarrow> getProp gpx ''trk'';
     trk0 \<leftarrow> index0 trk;
     trkseg \<leftarrow> getProp trk0 ''trkseg'';
     trkseg0 \<leftarrow> index0 trkseg;
     getProp trkseg0 ''trkpt'' }"

text \<open>Lines 49-87: the body of the \<^verbatim>\<open>try\<close> block.\<close>

definition trackPointsOf :: "('e, 'p) env \<Rightarrow> xnode \<Rightarrow> trackPoint list option" where
  "trackPointsOf env result = do {
     trackPoints \<leftarrow> trackPointsPath result;
     arrayMap (pointRecord env) trackPoints }"

text \<open>
  How the promise settles. The three failures are named as the specification names them:
  \<open>DocumentUnreadable\<close> carries the error of \<^verbatim>\<open>fs.readFile\<close>, \<open>MalformedDocument\<close> the
  error of the parser, and \<open>StructureMismatch\<close> is the TypeError caught by \<^verbatim>\<open>catch\<close>.
\<close>

datatype ('e, 'p) failure = DocumentUnreadable 'e | MalformedDocument 'p | StructureMismatch

datatype ('f, 'a) settled = Rejected 'f | Resolved 'a

text \<open>Lines 35-45 and 110-120: read, parse, then run the body of the \<^verbatim>\<open>try\<close> block.\<close>

definition loadAndParse ::
  "('e, 'p) env \<Rightarrow> string \<Rightarrow> (xnode \<Rightarrow> 'a option) \<Rightarrow> (('e, 'p) failure, 'a) settled" where
  "loadAndParse env path body =
     (case readFile env path of
        Inl err \<Rightarrow> Rejected (DocumentUnreadable err)
      | Inr data \<Rightarrow>
          (case parseString env data of
             Inl err \<Rightarrow> Rejected (MalformedDocument err)
           | Inr result \<Rightarrow>
               (case body result of
                  None \<Rightarrow> Rejected StructureMismatch
                | Some v \<Rightarrow> Resolved v)))"

definition getTrackPointsData ::
  "('e, 'p) env \<Rightarrow> string \<Rightarrow> (('e, 'p) failure, trackPoint list) settled" where
  "getTrackPointsData env path = loadAndParse env path (trackPointsOf env)"

section \<open>GetMetadata\<close>

record metadata =
  name :: xnode
  desc :: xnode
  author :: xnode

text \<open>\<^verbatim>\<open>m.k ? m.k[0] : null\<close> of lines 125-127.\<close>

definition firstOrNull :: "xnode \<Rightarrow> string \<Rightarrow> xnode option" where
  "firstOrNull m k = do {
     c \<leftarrow> getProp m k;
     if truthy c then do { d \<leftarrow> getProp m k; index0 d } else Some XNull }"

text \<open>Lines 124-134: the body of the \<^verbatim>\<open>try\<close> block; \<^verbatim>\<open>{}\<close> is the object without
  members.\<close>

definition metadataOf :: "xnode \<Rightarrow> metadata option" where
  "metadataOf result = do {
     gpx \<leftarrow> getProp result ''gpx'';
     c \<leftarrow> getProp gpx ''metadata'';
     md \<leftarrow> (if truthy c then do { gpx' \<leftarrow> getProp result ''gpx'';
                                   d \<leftarrow> getProp gpx' ''metadata'';
                                   index0 d }
            else Some (XObj []));
     n \<leftarrow> firstOrNull md ''name'';
     d \<leftarrow> firstOrNull md ''desc'';
     a \<leftarrow> firstOrNull md ''author'';
     Some \<lparr>name = n, desc = d, author = a\<rparr> }"

definition GetMetadata ::
  "('e, 'p) env \<Rightarrow> string \<Rightarrow> (('e, 'p) failure, metadata) settled" where
  "GetMetadata env path = loadAndParse env path metadataOf"

section \<open>Documents and the tree the parser builds for them\<close>

text \<open>
  An XML element: its tag, its attributes, its character data and its child elements in
  document order.
\<close>

datatype element =
  Element (tag: string) (attributes: "(string \<times> string) list") (chardata: string)
          (children: "element list")

definition childrenNamed :: "string \<Rightarrow> element \<Rightarrow> element list" where
  "childrenNamed k e = filter (\<lambda>c. tag c = k) (children e)"

text \<open>
  The module header requires xml2js 0.6.2 and the source creates the parser with its
  default options. The parser itself is not part of the sources; the function below
  records the shape of its result under those options, which is what the navigation in
  the source relies on:
  \<^item> an element with neither attributes nor child elements is its character data, a
    string (the empty string for an empty element);
  \<^item> any other element is an object: its attributes, if it has any, under \<^verbatim>\<open>$\<close>; its
    character data, unless that is white space only, under \<^verbatim>\<open>_\<close>; and for every tag among
    its children the array of the children of that tag, in document order;
  \<^item> the result is an object with one member, named as the root element.
  The parser's own member names \<^verbatim>\<open>$\<close> and \<^verbatim>\<open>_\<close> are taken not to occur as tags. Character
  data is the text between the tags as it stands: the parser is created without its
  \<^verbatim>\<open>trim\<close> and \<^verbatim>\<open>normalize\<close> options.
\<close>

fun xml2jsNode :: "element \<Rightarrow> xnode" where
  "xml2jsNode (Element t ats txt cs) =
     (if ats = [] \<and> cs = [] then XStr txt
      else XObj
        ((if list_all isWhiteSpace txt then [] else [(''_'', XStr txt)])
         @ (if ats = [] then [] else [(''$'', XObj (map (\<lambda>(k, v). (k, XStr v)) ats))])
         @ map (\<lambda>k. (k, XArr (map xml2jsNode (filter (\<lambda>c. tag c = k) cs))))
               (remdups (map tag cs))))"

definition xml2js :: "element \<Rightarrow> xnode" where
  "xml2js doc = XObj [(tag doc, xml2jsNode doc)]"

section \<open>Reading the claims on documents\<close>

text \<open>The first child element of a given tag, if there is one.\<close>

definition firstChild :: "string \<Rightarrow> element \<Rightarrow> element option" where
  "firstChild k e = (case childrenNamed k e of [] \<Rightarrow> None | c # _ \<Rightarrow> Some c)"

text \<open>An element of simple content: no attributes and no child elements, only text.\<close>

definition textOnly :: "element \<Rightarrow> bool" where
  "textOnly e = (attributes e = [] \<and> children e = [])"

text \<open>The track points of the first segment of the first track of a document; \<open>None\<close> when
  the document has no track or its first track has no segment.\<close>

definition firstSegmentPoints :: "element \<Rightarrow> element list option" where
  "firstSegmentPoints doc = do {
     t \<leftarrow> firstChild ''trk'' doc;
     s \<leftarrow> firstChild ''trkseg'' t;
     Some (childrenNamed ''trkpt'' s) }"

text \<open>The heart-rate element nested in an \<^verbatim>\<open>extensions\<close> element: the first
  \<^verbatim>\<open>gpxtpx:hr\<close> child of its first \<^verbatim>\<open>gpxtpx:TrackPointExtension\<close> child.\<close>

definition heartRateElement :: "element \<Rightarrow> element option" where
  "heartRateElement x = do {
     w \<leftarrow> firstChild ''gpxtpx:TrackPointExtension'' x;
     firstChild ''gpxtpx:hr'' w }"

text \<open>
  A well-formed track point: it carries at least one attribute; its first \<^verbatim>\<open>ele\<close> and
  \<^verbatim>\<open>time\<close> children, where present, have simple content; and its first \<^verbatim>\<open>extensions\<close>
  child, where present, holds the nested heart-rate element, of simple content too.
\<close>

definition wellFormedPoint :: "element \<Rightarrow> bool" where
  "wellFormedPoint p =
     (attributes p \<noteq> []
      \<and> (case firstChild ''ele'' p of None \<Rightarrow> True | Some e \<Rightarrow> textOnly e)
      \<and> (case firstChild ''time'' p of None \<Rightarrow> True | Some t \<Rightarrow> textOnly t)
      \<and> (case firstChild ''extensions'' p of None \<Rightarrow> True
          | Some x \<Rightarrow> (case heartRateElement x of None \<Rightarrow> False | Some h \<Rightarrow> textOnly h)))"

text \<open>The element with its children of one tag taken out.\<close>

definition withoutChildren :: "string \<Rightarrow> element \<Rightarrow> element" where
  "withoutChildren k e =
     Element (tag e) (attributes e) (chardata e) (filter (\<lambda>c. tag c \<noteq> k) (children e))"

text \<open>
  A text has a numeric prefix when, after leading white space and an optional sign, it
  starts with \<^verbatim>\<open>Infinity\<close>, with a digit, or with a dot followed by a digit.
\<close>

definition startsNumeral :: "string \<Rightarrow> bool" where
  "startsNumeral u =
     (take 8 u = ''Infinity'' \<or>
      (case u of [] \<Rightarrow> False
       | c # r \<Rightarrow> isDigit c \<or> (c = CHR ''.'' \<and> (case r of [] \<Rightarrow> False | d # _ \<Rightarrow> isDigit d))))"

definition hasNumericPrefix :: "string \<Rightarrow> bool" where
  "hasNumericPrefix s = startsNumeral (snd (signOf (dropWhile isWhiteSpace s)))"

section \<open>Sample documents and a sample environment\<close>

text \<open>A track point with every optional field, one with none, one whose optional
  elements are empty, one without attributes, one whose \<^verbatim>\<open>extensions\<close> hold something
  else than the heart-rate wrapper, and one whose \<^verbatim>\<open>lat\<close> is not a number and whose
  \<^verbatim>\<open>lon\<close> is missing.\<close>

definition pointFull :: element where
  "pointFull =
     Element ''trkpt'' [(''lat'', ''45.0''), (''lon'', ''7.5'')] ''''
       [Element ''ele'' [] ''123.4'' [],
        Element ''time'' [] ''2024-01-01T10:00:00Z'' [],
        Element ''extensions'' [] ''''
          [Element ''gpxtpx:TrackPointExtension'' [] ''''
             [Element ''gpxtpx:hr'' [] ''150'' []]]]"

definition pointPlain :: element where
  "pointPlain = Element ''trkpt'' [(''lat'', ''46.0''), (''lon'', ''8.5'')] '''' []"

definition pointEmptyFields :: element where
  "pointEmptyFields =
     Element ''trkpt'' [(''lat'', ''47.0''), (''lon'', ''9.5'')] ''''
       [Element ''ele'' [] '''' [],
        Element ''time'' [] '''' [],
        Element ''extensions'' [] ''''
          [Element ''gpxtpx:TrackPointExtension'' [] ''''
             [Element ''gpxtpx:hr'' [] '''' []]]]"

definition pointNoAttributes :: element where
  "pointNoAttributes = Element ''trkpt'' [] '''' [Element ''ele'' [] ''10'' []]"

definition pointOtherExtension :: element where
  "pointOtherExtension =
     Element ''trkpt'' [(''lat'', ''47.0''), (''lon'', ''9.5'')] ''''
       [Element ''extensions'' [] '''' [Element ''speed'' [] ''3.2'' []]]"

definition pointNoLon :: element where
  "pointNoLon = Element ''trkpt'' [(''lat'', ''north'')] '''' []"

text \<open>The documents, each with the text of its file. They share the attributes of the
  root element.\<close>

definition gpxAttributes :: "(string \<times> string) list" where
  "gpxAttributes =
     [(''xmlns'', ''http://www.topografix.com/GPX/1/1''),
      (''xmlns:gpxtpx'', ''http://www.garmin.com/xmlschemas/TrackPointExtension/v1''),
      (''version'', ''1.1''), (''creator'', ''sample'')]"

definition gpxOpen :: string where
  "gpxOpen =
     ''<gpx xmlns='http://www.topografix.com/GPX/1/1' ''
     @ ''xmlns:gpxtpx='http://www.garmin.com/xmlschemas/TrackPointExtension/v1' ''
     @ ''version='1.1' creator='sample'>''"

definition rideDoc :: element where
  "rideDoc =
     Element ''gpx'' gpxAttributes ''''
       [Element ''metadata'' [] '''' [Element ''name'' [] ''Ride'' []],
        Element ''trk'' [] '''' [Element ''trkseg'' [] '''' [pointFull, pointPlain]]]"

definition rideText :: string where
  "rideText =
     gpxOpen @ ''<metadata><name>Ride</name></metadata><trk><trkseg>''
     @ ''<trkpt lat='45.0' lon='7.5'><ele>123.4</ele><time>2024-01-01T10:00:00Z</time>''
     @ ''<extensions><gpxtpx:TrackPointExtension><gpxtpx:hr>150</gpxtpx:hr>''
     @ ''</gpxtpx:TrackPointExtension></extensions></trkpt>''
     @ ''<trkpt lat='46.0' lon='8.5'/></trkseg></trk></gpx>''"

definition notesDoc :: element where
  "notesDoc =
     Element ''gpx'' gpxAttributes ''''
       [Element ''metadata'' [] '''' [Element ''name'' [] ''Ride'' []]]"

definition notesText :: string where
  "notesText = gpxOpen @ ''<metadata><name>Ride</name></metadata></gpx>''"

definition plainDoc :: element where
  "plainDoc =
     Element ''gpx'' gpxAttributes ''''
       [Element ''trk'' [] '''' [Element ''trkseg'' [] '''' [pointPlain]]]"

definition plainText :: string where
  "plainText =
     gpxOpen @ ''<trk><trkseg><trkpt lat='46.0' lon='8.5'/></trkseg></trk></gpx>''"

definition emptySegmentDoc :: element where
  "emptySegmentDoc =
     Element ''gpx'' gpxAttributes '''' [Element ''trk'' [] '''' [Element ''trkseg'' [] '''' []]]"

definition emptySegmentText :: string where
  "emptySegmentText = gpxOpen @ ''<trk><trkseg></trkseg></trk></gpx>''"

definition laterSegmentDoc :: element where
  "laterSegmentDoc =
     Element ''gpx'' gpxAttributes ''''
       [Element ''trk'' [] ''''
          [Element ''trkseg'' [] '''' [], Element ''trkseg'' [] '''' [pointPlain]]]"

definition laterSegmentText :: string where
  "laterSegmentText =
     gpxOpen
     @ ''<trk><trkseg/><trkseg><trkpt lat='46.0' lon='8.5'/></trkseg></trk></gpx>''"

definition noAttributesDoc :: element where
  "noAttributesDoc =
     Element ''gpx'' gpxAttributes ''''
       [Element ''trk'' [] '''' [Element ''trkseg'' [] '''' [pointNoAttributes]]]"

definition noAttributesText :: string where
  "noAttributesText =
     gpxOpen @ ''<trk><trkseg><trkpt><ele>10</ele></trkpt></trkseg></trk></gpx>''"

definition otherExtensionDoc :: element where
  "otherExtensionDoc =
     Element ''gpx'' gpxAttributes ''''
       [Element ''trk'' [] ''''
          [Element ''trkseg'' [] '''' [pointPlain, pointOtherExtension]]]"

definition otherExtensionText :: string where
  "otherExtensionText =
     gpxOpen @ ''<trk><trkseg><trkpt lat='46.0' lon='8.5'/><trkpt lat='47.0' lon='9.5'>''
     @ ''<extensions><speed>3.2</speed></extensions></trkpt></trkseg></trk></gpx>''"

definition placesDoc :: element where
  "placesDoc = Element ''kml'' [] '''' []"

definition placesText :: string where
  "placesText = ''<kml></kml>''"

definition brokenText :: string where
  "brokenText = gpxOpen @ ''<trk>''"

text \<open>A blank file: one line feed and nothing else.\<close>

definition blankText :: string where
  "blankText = [CHR 0x0A]"

text \<open>
  The sample environment: a directory of files; a parser that knows the trees of the
  sample documents, answers the blank text with \<^verbatim>\<open>null\<close> and no error (as xml2js does
  for a text that is empty once trimmed) and reports an error on any other text; parser
  objects that convert to \<^verbatim>\<open>[object Object]\<close>; and a locale that renders the one instant
  the samples use.
\<close>

definition sampleFiles :: "(string \<times> string) list" where
  "sampleFiles =
     [(''ride.gpx'', rideText), (''notes.gpx'', notesText), (''plain.gpx'', plainText),
      (''empty.gpx'', emptySegmentText), (''later.gpx'', laterSegmentText),
      (''bare.gpx'', noAttributesText), (''other.gpx'', otherExtensionText),
      (''places.kml'', placesText), (''broken.gpx'', brokenText),
      (''blank.gpx'', blankText)]"

definition sampleTrees :: "(string \<times> xnode) list" where
  "sampleTrees =
     [(rideText, xml2js rideDoc), (notesText, xml2js notesDoc), (plainText, xml2js plainDoc),
      (emptySegmentText, xml2js emptySegmentDoc), (laterSegmentText, xml2js laterSegmentDoc),
      (noAttributesText, xml2js noAttributesDoc),
      (otherExtensionText, xml2js otherExtensionDoc), (placesText, xml2js placesDoc),
      (blankText, XNull)]"

definition sampleEnv :: "(string, string) env" where
  "sampleEnv =
     \<lparr>readFile = (\<lambda>p. case map_of sampleFiles p of None \<Rightarrow> Inl ''ENOENT'' | Some s \<Rightarrow> Inr s),
      parseString = (\<lambda>s. case map_of sampleTrees s of
                            None \<Rightarrow> Inl ''Unclosed root tag'' | Some t \<Rightarrow> Inr t),
      objectToString = Some ''[object Object]'',
      dateToLocaleString = (\<lambda>s. if s = ''2024-01-01T10:00:00Z''
                                 then ''1/1/2024, 10:00:00 AM'' else ''Invalid Date'')\<rparr>"

text \<open>The same environment after a copy of one file has been added to the directory.\<close>

definition laterEnv :: "(string, string) env" where
  "laterEnv =
     sampleEnv\<lparr>readFile := (\<lambda>p. if p = ''copy.gpx'' then Inr rideText
                                else readFile sampleEnv p)\<rparr>"

text \<open>A tree with an empty \<^verbatim>\<open>trkpt\<close> array, and an environment whose parser returns it.\<close>

definition emptyListTree :: xnode where
  "emptyListTree =
     XObj [(''gpx'', XObj [(''trk'', XArr [XObj [(''trkseg'',
        XArr [XObj [(''trkpt'', XArr [])]])]])])]"

definition emptyListEnv :: "(string, string) env" where
  "emptyListEnv = sampleEnv\<lparr>parseString := (\<lambda>s. Inr emptyListTree)\<rparr>"

section \<open>The shape of the parser's tree\<close>

lemma map_of_tabulate:
  "map_of (map (\<lambda>k. (k, f k)) ks) k = (if k \<in> set ks then Some (f k) else None)"
  by (induction ks) auto

lemma filter_tag_empty: "(filter (\<lambda>c. tag c = k) cs = []) = (k \<notin> tag ` set cs)"
  by (auto simp: filter_empty_conv)

lemma map_of_attributes:
  "map_of (map (\<lambda>(k, v). (k, XStr v)) ats) k = map_option XStr (map_of ats k)"
  by (induction ats) auto

text \<open>Reading a child tag off an element's node gives the array of the children of that
  tag, or \<^verbatim>\<open>undefined\<close> when there are none: never an empty array.\<close>

lemma getProp_children:
  assumes "k \<noteq> ''_''" and "k \<noteq> ''$'' \<or> attributes e = []"
  shows "getProp (xml2jsNode e) k =
           Some (if childrenNamed k e = [] then XUndefined
                 else XArr (map xml2jsNode (childrenNamed k e)))"
proof (cases e)
  case (Element t ats tx cs)
  show ?thesis
  proof (cases "ats = [] \<and> cs = []")
    case True
    then show ?thesis using Element by (simp add: childrenNamed_def)
  next
    case False
    then show ?thesis using Element assms
      by (auto simp: childrenNamed_def map_add_def map_of_tabulate filter_tag_empty
          split: option.splits)
  qed
qed

lemma getProp_attributes:
  assumes "attributes e \<noteq> []"
  shows "getProp (xml2jsNode e) ''$'' =
           Some (XObj (map (\<lambda>(k, v). (k, XStr v)) (attributes e)))"
  using assms by (cases e) (auto simp: map_add_def split: option.splits)

lemma textOnly_node: "textOnly e \<Longrightarrow> xml2jsNode e = XStr (chardata e)"
  by (cases e) (simp add: textOnly_def)

lemma parse_text [simp]:
  "parseFloat env (XStr s) = Some (parseFloatStr s)"
  "parseInt env (XStr s) = Some (parseIntStr s)"
  "newDateToLocaleString env (XStr s) = Some (dateToLocaleString env s)"
  by (simp_all add: parseFloat_def parseInt_def newDateToLocaleString_def)

lemma parseFloat_undefined: "parseFloat env XUndefined = Some NaN"
  by (simp add: parseFloat_def parseFloatStr_def isWhiteSpace_def isDigit_def)

section \<open>The fields of a track point, read off its element\<close>

lemma hrPath_children:
  "hrPath (XArr (xml2jsNode x # ys)) = map_option xml2jsNode (heartRateElement x)"
proof (cases "childrenNamed ''gpxtpx:TrackPointExtension'' x")
  case Nil
  then show ?thesis
    by (simp add: hrPath_def getProp_children heartRateElement_def firstChild_def)
next
  case (Cons w ws)
  then show ?thesis
    by (cases "childrenNamed ''gpxtpx:hr'' w")
       (simp_all add: hrPath_def getProp_children heartRateElement_def firstChild_def)
qed

lemma elevationOf_element:
  "elevationOf env (xml2jsNode p) =
     (case firstChild ''ele'' p of
        None \<Rightarrow> Some JNull
      | Some e \<Rightarrow> if truthy (xml2jsNode e)
                  then map_option JNum (parseFloat env (xml2jsNode e)) else Some JNull)"
  by (cases "parseFloat env (xml2jsNode (hd (childrenNamed ''ele'' p)))")
     (auto simp: elevationOf_def getProp_children firstChild_def split: list.splits)

lemma timestampOf_element:
  "timestampOf env (xml2jsNode p) =
     (case firstChild ''time'' p of
        None \<Rightarrow> Some JNull
      | Some t \<Rightarrow> if truthy (xml2jsNode t)
                  then map_option JStr (newDateToLocaleString env (xml2jsNode t))
                  else Some JNull)"
  by (cases "newDateToLocaleString env (xml2jsNode (hd (childrenNamed ''time'' p)))")
     (auto simp: timestampOf_def getProp_children firstChild_def split: list.splits)

lemma heartRateOf_element:
  "heartRateOf env (xml2jsNode p) =
     (case firstChild ''extensions'' p of
        None \<Rightarrow> Some JNull
      | Some x \<Rightarrow>
          (case heartRateElement x of
             None \<Rightarrow> None
           | Some h \<Rightarrow> if truthy (xml2jsNode h)
                       then map_option JNum (parseInt env (xml2jsNode h)) else Some JNull))"
proof (cases "childrenNamed ''extensions'' p")
  case Nil
  then show ?thesis by (simp add: heartRateOf_def getProp_children firstChild_def)
next
  case (Cons x xs)
  then have ext: "getProp (xml2jsNode p) ''extensions''
                    = Some (XArr (xml2jsNode x # map xml2jsNode xs))"
    by (simp add: getProp_children)
  show ?thesis
  proof (cases "heartRateElement x")
    case None
    then show ?thesis using Cons
      by (simp add: heartRateOf_def ext hrPath_children firstChild_def)
  next
    case (Some h)
    then show ?thesis using Cons
      by (cases "parseInt env (xml2jsNode h)")
         (simp_all add: heartRateOf_def ext hrPath_children firstChild_def)
  qed
qed

lemma coordinateOf_attributes:
  assumes "attributes p \<noteq> []"
  shows "coordinateOf env (xml2jsNode p) k =
           Some (case map_of (attributes p) k of None \<Rightarrow> NaN | Some s \<Rightarrow> parseFloatStr s)"
  using assms
  by (simp add: coordinateOf_def getProp_attributes map_of_attributes parseFloat_undefined
           split: option.splits)

lemma coordinateOf_no_attributes:
  assumes "attributes p = []" and "childrenNamed ''$'' p = []"
  shows "coordinateOf env (xml2jsNode p) k = None"
  using assms by (simp add: coordinateOf_def getProp_children)

lemma pointRecord_attributes:
  assumes "attributes p \<noteq> []"
  shows "pointRecord env (xml2jsNode p) = do {
           el \<leftarrow> elevationOf env (xml2jsNode p);
           ts \<leftarrow> timestampOf env (xml2jsNode p);
           hr \<leftarrow> heartRateOf env (xml2jsNode p);
           Some \<lparr>lat = JNum (case map_of (attributes p) ''lat'' of
                               None \<Rightarrow> NaN | Some s \<Rightarrow> parseFloatStr s),
                 lon = JNum (case map_of (attributes p) ''lon'' of
                               None \<Rightarrow> NaN | Some s \<Rightarrow> parseFloatStr s),
                 heartRate = hr, timestamp = ts, elevation = el\<rparr> }"
  by (simp add: pointRecord_def coordinateOf_attributes [OF assms])

lemma pointRecord_fields:
  assumes "pointRecord env n = Some r"
  shows "elevationOf env n = Some (elevation r)"
    and "timestampOf env n = Some (timestamp r)"
    and "heartRateOf env n = Some (heartRate r)"
    and "\<exists>x y. lat r = JNum x \<and> lon r = JNum y"
  using assms by (auto simp: pointRecord_def split: bind_splits)

lemma wellFormedPoint_fields:
  assumes "wellFormedPoint p"
  shows "elevationOf env (xml2jsNode p) \<noteq> None"
    and "timestampOf env (xml2jsNode p) \<noteq> None"
    and "heartRateOf env (xml2jsNode p) \<noteq> None"
  using assms
  by (auto simp: wellFormedPoint_def elevationOf_element timestampOf_element
        heartRateOf_element textOnly_node split: option.splits)

lemma wellFormedPoint_record:
  assumes "wellFormedPoint p"
  shows "pointRecord env (xml2jsNode p) \<noteq> None"
proof -
  have "attributes p \<noteq> []" using assms by (simp add: wellFormedPoint_def)
  then show ?thesis
    using wellFormedPoint_fields [OF assms, of env]
    by (auto simp: pointRecord_attributes)
qed

text \<open>The record of a point is settled by its attributes and by what the three optional
  fields evaluate to.\<close>

lemma pointRecord_same_fields:
  assumes "attributes p = attributes q"
    and "childrenNamed ''$'' p = childrenNamed ''$'' q"
    and "elevationOf env (xml2jsNode p) = elevationOf env (xml2jsNode q)"
    and "timestampOf env (xml2jsNode p) = timestampOf env (xml2jsNode q)"
    and "heartRateOf env (xml2jsNode p) = heartRateOf env (xml2jsNode q)"
  shows "pointRecord env (xml2jsNode p) = pointRecord env (xml2jsNode q)"
proof -
  have "getProp (xml2jsNode p) ''$'' = getProp (xml2jsNode q) ''$''"
  proof (cases "attributes p = []")
    case True
    then show ?thesis using assms(1,2) by (simp add: getProp_children)
  next
    case False
    then show ?thesis using assms(1) by (simp add: getProp_attributes)
  qed
  then have "coordinateOf env (xml2jsNode p) = coordinateOf env (xml2jsNode q)"
    by (simp add: coordinateOf_def fun_eq_iff)
  then show ?thesis
    unfolding pointRecord_def assms(3-5) by simp
qed

lemma firstChild_withoutChildren:
  "firstChild k (withoutChildren k' e) = (if k = k' then None else firstChild k e)"
proof -
  have "filter (\<lambda>c. tag c = k) (filter (\<lambda>c. tag c \<noteq> k') cs)
          = (if k = k' then [] else filter (\<lambda>c. tag c = k) cs)" for cs
    by (induction cs) auto
  then show ?thesis
    by (simp add: firstChild_def childrenNamed_def withoutChildren_def)
qed

lemma pointRecord_withoutChildren:
  assumes "k \<noteq> ''$''"
    and "elevationOf env (xml2jsNode (withoutChildren k p)) = elevationOf env (xml2jsNode p)"
    and "timestampOf env (xml2jsNode (withoutChildren k p)) = timestampOf env (xml2jsNode p)"
    and "heartRateOf env (xml2jsNode (withoutChildren k p)) = heartRateOf env (xml2jsNode p)"
  shows "pointRecord env (xml2jsNode (withoutChildren k p)) = pointRecord env (xml2jsNode p)"
proof -
  have "filter (\<lambda>c. tag c = ''$'') (filter (\<lambda>c. tag c \<noteq> k) cs)
          = filter (\<lambda>c. tag c = ''$'') cs" for cs
    using assms(1) by (induction cs) auto
  then have c: "childrenNamed ''$'' (withoutChildren k p) = childrenNamed ''$'' p"
    by (simp add: childrenNamed_def withoutChildren_def)
  have a: "attributes (withoutChildren k p) = attributes p"
    by (simp add: withoutChildren_def)
  show ?thesis
    using a c assms(2-4) by (rule pointRecord_same_fields)
qed

section \<open>The whole extraction, read off the document\<close>

lemma mapInOrder_Some:
  "mapInOrder f xs = Some ys \<Longrightarrow> map Some ys = map f xs"
proof (induction xs arbitrary: ys)
  case Nil
  then show ?case by simp
next
  case (Cons x xs)
  then show ?case by (auto split: bind_splits)
qed

lemma mapInOrder_total:
  "(\<forall>x\<in>set xs. f x \<noteq> None) \<Longrightarrow> \<exists>ys. mapInOrder f xs = Some ys"
  by (induction xs) auto


lemma mapInOrder_map: "mapInOrder f (map g xs) = mapInOrder (\<lambda>x. f (g x)) xs"
  by (induction xs) simp_all

lemma trackPointsPath_document:
  "trackPointsPath (xml2js doc) =
     (if tag doc = ''gpx''
      then (case firstSegmentPoints doc of
              None \<Rightarrow> None
            | Some pts \<Rightarrow> Some (if pts = [] then XUndefined else XArr (map xml2jsNode pts)))
      else None)"
proof (cases "tag doc = ''gpx''")
  case False
  then show ?thesis by (simp add: trackPointsPath_def xml2js_def)
next
  case True
  show ?thesis
  proof (cases "childrenNamed ''trk'' doc")
    case Nil
    then show ?thesis using True
      by (simp add: trackPointsPath_def xml2js_def getProp_children firstChild_def
            firstSegmentPoints_def)
  next
    case (Cons t ts)
    then show ?thesis using True
      by (cases "childrenNamed ''trkseg'' t")
         (simp_all add: trackPointsPath_def xml2js_def getProp_children firstChild_def
            firstSegmentPoints_def)
  qed
qed

lemma trackPointsOf_document:
  "trackPointsOf env (xml2js doc) =
     (if tag doc = ''gpx''
      then (case firstSegmentPoints doc of
              None \<Rightarrow> None
            | Some pts \<Rightarrow> if pts = [] then None
                          else mapInOrder (\<lambda>p. pointRecord env (xml2jsNode p)) pts)
      else None)"
  by (simp add: trackPointsOf_def trackPointsPath_document mapInOrder_map split: option.splits)

lemma getTrackPointsData_parsed:
  assumes "readFile env path = Inr data" and "parseString env data = Inr result"
  shows "getTrackPointsData env path =
           (case trackPointsOf env result of
              None \<Rightarrow> Rejected StructureMismatch | Some v \<Rightarrow> Resolved v)"
  using assms by (simp add: getTrackPointsData_def loadAndParse_def)

lemma GetMetadata_parsed:
  assumes "readFile env path = Inr data" and "parseString env data = Inr result"
  shows "GetMetadata env path =
           (case metadataOf result of
              None \<Rightarrow> Rejected StructureMismatch | Some v \<Rightarrow> Resolved v)"
  using assms by (simp add: GetMetadata_def loadAndParse_def)

lemma firstOrNull_element:
  assumes "k \<noteq> ''_''" and "k \<noteq> ''$''"
  shows "firstOrNull (xml2jsNode m) k =
           Some (case firstChild k m of None \<Rightarrow> XNull | Some c \<Rightarrow> xml2jsNode c)"
  using assms
  by (simp add: firstOrNull_def getProp_children firstChild_def split: list.splits)

lemma firstOrNull_empty_object: "firstOrNull (XObj []) k = Some XNull"
  by (simp add: firstOrNull_def)

lemma metadataOf_document:
  "metadataOf (xml2js doc) =
     (if tag doc = ''gpx''
      then (case firstChild ''metadata'' doc of
              None \<Rightarrow> Some \<lparr>name = XNull, desc = XNull, author = XNull\<rparr>
            | Some m \<Rightarrow>
                Some \<lparr>name = (case firstChild ''name'' m of
                                None \<Rightarrow> XNull | Some c \<Rightarrow> xml2jsNode c),
                      desc = (case firstChild ''desc'' m of
                                None \<Rightarrow> XNull | Some c \<Rightarrow> xml2jsNode c),
                      author = (case firstChild ''author'' m of
                                None \<Rightarrow> XNull | Some c \<Rightarrow> xml2jsNode c)\<rparr>)
      else None)"
proof (cases "tag doc = ''gpx''")
  case False
  then show ?thesis by (simp add: metadataOf_def xml2js_def)
next
  case True
  show ?thesis
  proof (cases "childrenNamed ''metadata'' doc")
    case Nil
    then show ?thesis using True
      by (simp add: metadataOf_def xml2js_def getProp_children firstChild_def
            firstOrNull_empty_object)
  next
    case (Cons m ms)
    then show ?thesis using True
      by (simp add: metadataOf_def xml2js_def getProp_children firstChild_def
            firstOrNull_element)
  qed
qed

text \<open>The callback reads two fields of the environment only.\<close>

lemma pointRecord_cong_env:
  assumes "objectToString env1 = objectToString env2"
    and "dateToLocaleString env1 = dateToLocaleString env2"
  shows "pointRecord env1 = pointRecord env2"
proof
  fix n
  have pf: "parseFloat env1 = parseFloat env2"
    and pi: "parseInt env1 = parseInt env2"
    and nd: "newDateToLocaleString env1 = newDateToLocaleString env2"
    using assms by (auto simp: parseFloat_def parseInt_def newDateToLocaleString_def fun_eq_iff)
  have "elevationOf env1 n = elevationOf env2 n"
    and "timestampOf env1 n = timestampOf env2 n"
    and "heartRateOf env1 n = heartRateOf env2 n"
    unfolding elevationOf_def timestampOf_def heartRateOf_def pf pi nd by (rule refl)+
  then show "pointRecord env1 n = pointRecord env2 n"
    unfolding pointRecord_def coordinateOf_def pf by simp
qed

section \<open>When parseFloat gives NaN\<close>

lemma parseFloatStr_NaN_iff: "parseFloatStr s = NaN \<longleftrightarrow> \<not> hasNumericPrefix s"
proof -
  obtain neg u where su: "signOf (dropWhile isWhiteSpace s) = (neg, u)"
    by (cases "signOf (dropWhile isWhiteSpace s)")
  show ?thesis
  proof (cases "take 8 u = ''Infinity''")
    case True
    then show ?thesis
      using su by (simp add: parseFloatStr_def hasNumericPrefix_def startsNumeral_def)
  next
    case False
    show ?thesis
    proof (cases u)
      case Nil
      then show ?thesis
        using su by (simp add: parseFloatStr_def hasNumericPrefix_def startsNumeral_def)
    next
      case (Cons c r)
      show ?thesis
      proof (cases "isDigit c")
        case True
        then show ?thesis
          using su Cons False
          by (simp add: parseFloatStr_def hasNumericPrefix_def startsNumeral_def Let_def)
      next
        case nd: False
        show ?thesis
        proof (cases r)
          case Nil
          then show ?thesis
            using su Cons False nd
            by (simp add: parseFloatStr_def hasNumericPrefix_def startsNumeral_def Let_def)
        next
          case (Cons d r')
          then show ?thesis
            using su \<open>u = c # r\<close> False nd
            by (simp add: parseFloatStr_def hasNumericPrefix_def startsNumeral_def Let_def)
        qed
      qed
    qed
  qed
qed

text \<open>The two numeric parsers on a few texts.\<close>

lemma parse_examples:
  "parseFloatStr ''45.0'' = Finite 45"
  "parseFloatStr ''123.4'' = Finite (1234 / 10)"
  "parseFloatStr ''  -1.5e-3 m'' = Finite (- 15 / 10000)"
  "parseFloatStr ''12abc'' = Finite 12"
  "parseFloatStr ''.5'' = Finite (1 / 2)"
  "parseFloatStr ''-Infinity'' = NegInfinity"
  "parseFloatStr ''abc'' = NaN"
  "parseFloatStr '''' = NaN"
  "parseIntStr ''150'' = Finite 150"
  "parseIntStr ''72.9'' = Finite 72"
  "parseIntStr ''0x1F'' = Finite 31"
  "parseIntStr ''-7'' = Finite (- 7)"
  "parseIntStr ''bpm'' = NaN"
  "parseIntStr '''' = NaN"
  by (simp_all add: parseFloatStr_def parseIntStr_def isWhiteSpace_def isDigit_def
        digitsVal_def digitVal_def hexVal_def)

section \<open>The sample environment, evaluated\<close>

lemmas sample_texts = gpxOpen_def rideText_def notesText_def plainText_def emptySegmentText_def
  laterSegmentText_def noAttributesText_def otherExtensionText_def placesText_def
  brokenText_def blankText_def

lemmas navigation_defs = firstSegmentPoints_def heartRateElement_def firstChild_def
  childrenNamed_def textOnly_def wellFormedPoint_def

lemmas numeral_defs = parseFloatStr_def parseIntStr_def isWhiteSpace_def isDigit_def
  digitsVal_def digitVal_def hexVal_def

lemma sample_readFile:
  "readFile sampleEnv ''ride.gpx'' = Inr rideText"
  "readFile sampleEnv ''notes.gpx'' = Inr notesText"
  "readFile sampleEnv ''plain.gpx'' = Inr plainText"
  "readFile sampleEnv ''empty.gpx'' = Inr emptySegmentText"
  "readFile sampleEnv ''later.gpx'' = Inr laterSegmentText"
  "readFile sampleEnv ''bare.gpx'' = Inr noAttributesText"
  "readFile sampleEnv ''other.gpx'' = Inr otherExtensionText"
  "readFile sampleEnv ''places.kml'' = Inr placesText"
  "readFile sampleEnv ''broken.gpx'' = Inr brokenText"
  "readFile sampleEnv ''missing.gpx'' = Inl ''ENOENT''"
  "readFile sampleEnv ''blank.gpx'' = Inr blankText"
  by (simp_all add: sampleEnv_def sampleFiles_def)

lemma sample_parseString:
  "parseString sampleEnv rideText = Inr (xml2js rideDoc)"
  "parseString sampleEnv notesText = Inr (xml2js notesDoc)"
  "parseString sampleEnv plainText = Inr (xml2js plainDoc)"
  "parseString sampleEnv emptySegmentText = Inr (xml2js emptySegmentDoc)"
  "parseString sampleEnv laterSegmentText = Inr (xml2js laterSegmentDoc)"
  "parseString sampleEnv noAttributesText = Inr (xml2js noAttributesDoc)"
  "parseString sampleEnv otherExtensionText = Inr (xml2js otherExtensionDoc)"
  "parseString sampleEnv placesText = Inr (xml2js placesDoc)"
  "parseString sampleEnv brokenText = Inl ''Unclosed root tag''"
  "parseString sampleEnv blankText = Inr XNull"
  by (simp_all add: sampleEnv_def sampleTrees_def sample_texts)

lemma sample_locale:
  "objectToString sampleEnv = Some ''[object Object]''"
  "dateToLocaleString sampleEnv ''2024-01-01T10:00:00Z'' = ''1/1/2024, 10:00:00 AM''"
  by (simp_all add: sampleEnv_def)

lemma sample_points:
  "firstSegmentPoints rideDoc = Some [pointFull, pointPlain]"
  "firstSegmentPoints emptySegmentDoc = Some []"
  "firstSegmentPoints laterSegmentDoc = Some []"
  "firstSegmentPoints noAttributesDoc = Some [pointNoAttributes]"
  "firstSegmentPoints otherExtensionDoc = Some [pointPlain, pointOtherExtension]"
  by (simp_all add: navigation_defs rideDoc_def emptySegmentDoc_def laterSegmentDoc_def
        noAttributesDoc_def otherExtensionDoc_def pointFull_def pointPlain_def
        pointNoAttributes_def pointOtherExtension_def)

lemma sample_wellFormed:
  "wellFormedPoint pointFull"
  "wellFormedPoint pointPlain"
  "wellFormedPoint pointEmptyFields"
  "wellFormedPoint pointNoLon"
  by (simp_all add: navigation_defs pointFull_def pointPlain_def pointEmptyFields_def
        pointNoLon_def)

lemma sample_records:
  "pointRecord sampleEnv (xml2jsNode pointFull) =
     Some \<lparr>lat = JNum (Finite 45), lon = JNum (Finite (15 / 2)),
           heartRate = JNum (Finite 150), timestamp = JStr ''1/1/2024, 10:00:00 AM'',
           elevation = JNum (Finite (1234 / 10))\<rparr>"
  "pointRecord sampleEnv (xml2jsNode pointPlain) =
     Some \<lparr>lat = JNum (Finite 46), lon = JNum (Finite (17 / 2)),
           heartRate = JNull, timestamp = JNull, elevation = JNull\<rparr>"
  "pointRecord sampleEnv (xml2jsNode pointEmptyFields) =
     Some \<lparr>lat = JNum (Finite 47), lon = JNum (Finite (19 / 2)),
           heartRate = JNull, timestamp = JNull, elevation = JNull\<rparr>"
  "pointRecord sampleEnv (xml2jsNode pointNoLon) =
     Some \<lparr>lat = JNum NaN, lon = JNum NaN,
           heartRate = JNull, timestamp = JNull, elevation = JNull\<rparr>"
  "pointRecord sampleEnv (xml2jsNode pointNoAttributes) = None"
  "pointRecord sampleEnv (xml2jsNode pointOtherExtension) = None"
  by (simp_all add: pointFull_def pointPlain_def pointEmptyFields_def pointNoLon_def
        pointNoAttributes_def pointOtherExtension_def pointRecord_def coordinateOf_def
        elevationOf_def
        timestampOf_def heartRateOf_def hrPath_def parseFloat_def sample_locale numeral_defs)

section \<open>Track points: how many, and in which order\<close>

text \<open>
  Claim C1, as the code has it. For every GPX document whose first track's first segment
  contains at least one track point, all of them well-formed, \<^verbatim>\<open>getTrackPointsData\<close>
  resolves with exactly as many records as the segment has track points, the record at
  each position being the record of the track point at that position in the document.
\<close>

theorem track_points_in_order:
  assumes "readFile env path = Inr data"
    and "parseString env data = Inr (xml2js doc)"
    and "tag doc = ''gpx''"
    and "firstSegmentPoints doc = Some pts"
    and "pts \<noteq> []"
    and "\<forall>p\<in>set pts. wellFormedPoint p"
  shows "\<exists>recs. getTrackPointsData env path = Resolved recs \<and>
                length recs = length pts \<and>
                (\<forall>i<length pts. pointRecord env (xml2jsNode (pts ! i)) = Some (recs ! i))"
proof -
  let ?f = "\<lambda>p. pointRecord env (xml2jsNode p)"
  have "\<forall>p\<in>set pts. ?f p \<noteq> None"
    using assms(6) wellFormedPoint_record by blast
  then obtain recs where recs: "mapInOrder ?f pts = Some recs"
    using mapInOrder_total [of pts ?f] by blast
  then have eq: "map Some recs = map ?f pts"
    by (rule mapInOrder_Some)
  then have len: "length recs = length pts"
    by (metis length_map)
  have nth: "?f (pts ! i) = Some (recs ! i)" if "i < length pts" for i
  proof -
    have "map ?f pts ! i = map Some recs ! i" using eq by simp
    then show ?thesis using that len by simp
  qed
  have "getTrackPointsData env path = Resolved recs"
    using assms(1-5) recs by (simp add: getTrackPointsData_parsed trackPointsOf_document)
  then show ?thesis using len nth by blast
qed

text \<open>The file \<^verbatim>\<open>ride.gpx\<close> of the sample directory: two track points, two records, in
  the order of the document.\<close>

theorem track_points_in_order_witness:
  "firstSegmentPoints rideDoc = Some [pointFull, pointPlain] \<and>
   pointRecord sampleEnv (xml2jsNode pointPlain) =
     Some \<lparr>lat = JNum (Finite 46), lon = JNum (Finite (17 / 2)),
           heartRate = JNull, timestamp = JNull, elevation = JNull\<rparr> \<and>
   (\<exists>recs. getTrackPointsData sampleEnv ''ride.gpx'' = Resolved recs \<and>
           length recs = 2 \<and>
           pointRecord sampleEnv (xml2jsNode pointFull) = Some (recs ! 0) \<and>
           pointRecord sampleEnv (xml2jsNode pointPlain) = Some (recs ! 1))"
proof -
  have wf: "\<forall>p\<in>set [pointFull, pointPlain]. wellFormedPoint p"
    by (simp add: sample_wellFormed)
  have "tag rideDoc = ''gpx''" by (simp add: rideDoc_def)
  from track_points_in_order [OF sample_readFile(1) sample_parseString(1) this
      sample_points(1) _ wf]
  obtain recs where r: "getTrackPointsData sampleEnv ''ride.gpx'' = Resolved recs"
    "length recs = length [pointFull, pointPlain]"
    "\<forall>i<length [pointFull, pointPlain].
        pointRecord sampleEnv (xml2jsNode ([pointFull, pointPlain] ! i)) = Some (recs ! i)"
    by auto
  have "pointRecord sampleEnv (xml2jsNode pointFull) = Some (recs ! 0)"
    using r(3) by auto
  moreover have "pointRecord sampleEnv (xml2jsNode pointPlain) = Some (recs ! 1)"
    using r(3) by auto
  ultimately show ?thesis
    using r(1,2) sample_points(1) sample_records(2) by auto
qed

text \<open>
  Claim C1 as stated covers a first segment with no track point at all (N = 0) and fails
  there: in \<^verbatim>\<open>later.gpx\<close> the first segment of the first track is empty (a later segment
  has a point), and the promise is rejected instead of resolving with zero records.
\<close>

theorem track_points_count_counterexample:
  "readFile sampleEnv ''later.gpx'' = Inr laterSegmentText \<and>
   parseString sampleEnv laterSegmentText = Inr (xml2js laterSegmentDoc) \<and>
   firstSegmentPoints laterSegmentDoc = Some [] \<and>
   getTrackPointsData sampleEnv ''later.gpx'' = Rejected StructureMismatch"
proof -
  have "getTrackPointsData sampleEnv ''later.gpx'' = Rejected StructureMismatch"
    by (simp add: getTrackPointsData_def loadAndParse_def sample_readFile sample_parseString
          trackPointsOf_def trackPointsPath_def xml2js_def laterSegmentDoc_def
          gpxAttributes_def)
  then show ?thesis
    by (simp add: sample_readFile sample_parseString sample_points)
qed

section \<open>A segment without track points\<close>

text \<open>
  Claim C2, as the code has it. A document whose first track's first segment contains
  zero track points makes \<^verbatim>\<open>getTrackPointsData\<close> reject with StructureMismatch: the
  parser's tree has no \<^verbatim>\<open>trkpt\<close> member for such a segment and \<^verbatim>\<open>.map\<close> is called on
  \<^verbatim>\<open>undefined\<close>. The promise resolves with the empty sequence when, and only when, the
  tree holds an empty \<^verbatim>\<open>trkpt\<close> array, and the parser builds such a tree for no document.
\<close>

theorem zero_track_points:
  assumes "readFile env path = Inr data"
  shows "(\<forall>doc. parseString env data = Inr (xml2js doc) \<and> firstSegmentPoints doc = Some []
            \<longrightarrow> getTrackPointsData env path = Rejected StructureMismatch) \<and>
         (\<forall>result. parseString env data = Inr result \<longrightarrow>
            (getTrackPointsData env path = Resolved [] \<longleftrightarrow>
             trackPointsPath result = Some (XArr []))) \<and>
         (\<forall>doc. trackPointsPath (xml2js doc) \<noteq> Some (XArr []))"
proof -
  have a: "getTrackPointsData env path = Rejected StructureMismatch"
    if "parseString env data = Inr (xml2js doc)" "firstSegmentPoints doc = Some []" for doc
    using assms that by (simp add: getTrackPointsData_parsed trackPointsOf_document)
  have b: "getTrackPointsData env path = Resolved [] \<longleftrightarrow>
           trackPointsPath result = Some (XArr [])"
    if p: "parseString env data = Inr result" for result
  proof
    assume "trackPointsPath result = Some (XArr [])"
    then show "getTrackPointsData env path = Resolved []"
      using assms p by (simp add: getTrackPointsData_parsed trackPointsOf_def)
  next
    assume "getTrackPointsData env path = Resolved []"
    then have "trackPointsOf env result = Some []"
      using assms p by (simp add: getTrackPointsData_parsed split: option.splits)
    then obtain v where v: "trackPointsPath result = Some v"
      and m: "arrayMap (pointRecord env) v = Some []"
      by (auto simp: trackPointsOf_def split: bind_splits)
    from m obtain xs where xs: "v = XArr xs" and "mapInOrder (pointRecord env) xs = Some []"
      by (cases v) auto
    then have "xs = []"
      by (cases xs) (auto split: bind_splits)
    then show "trackPointsPath result = Some (XArr [])"
      using v xs by simp
  qed
  have c: "trackPointsPath (xml2js doc) \<noteq> Some (XArr [])" for doc
    by (simp add: trackPointsPath_document split: option.splits)
  show ?thesis using a b c by blast
qed

text \<open>The file \<^verbatim>\<open>empty.gpx\<close> under the sample parser, and under a parser that would
  return a tree with an empty \<^verbatim>\<open>trkpt\<close> array.\<close>

theorem zero_track_points_witness:
  "getTrackPointsData sampleEnv ''empty.gpx'' = Rejected StructureMismatch \<and>
   trackPointsPath emptyListTree = Some (XArr []) \<and>
   getTrackPointsData emptyListEnv ''empty.gpx'' = Resolved [] \<and>
   trackPointsPath (xml2js emptySegmentDoc) \<noteq> Some (XArr [])"
proof -
  have r: "readFile emptyListEnv ''empty.gpx'' = Inr emptySegmentText"
    by (simp add: emptyListEnv_def sample_readFile)
  have p: "parseString emptyListEnv emptySegmentText = Inr emptyListTree"
    by (simp add: emptyListEnv_def)
  have t: "trackPointsPath emptyListTree = Some (XArr [])"
    by (simp add: emptyListTree_def trackPointsPath_def)
  show ?thesis
    using zero_track_points [OF sample_readFile(4)] zero_track_points [OF r]
      sample_parseString(4) sample_points(2) p t
    by blast
qed

text \<open>
  Claim C2 as stated fails: the first segment of \<^verbatim>\<open>empty.gpx\<close> has zero track points, and
  the promise is rejected, not resolved with an empty sequence.
\<close>

theorem zero_track_points_counterexample:
  "readFile sampleEnv ''empty.gpx'' = Inr emptySegmentText \<and>
   parseString sampleEnv emptySegmentText = Inr (xml2js emptySegmentDoc) \<and>
   firstSegmentPoints emptySegmentDoc = Some [] \<and>
   getTrackPointsData sampleEnv ''empty.gpx'' = Rejected StructureMismatch"
proof -
  have "getTrackPointsData sampleEnv ''empty.gpx'' = Rejected StructureMismatch"
    by (simp add: getTrackPointsData_def loadAndParse_def sample_readFile sample_parseString
          trackPointsOf_def trackPointsPath_def xml2js_def emptySegmentDoc_def
          gpxAttributes_def)
  then show ?thesis
    by (simp add: sample_readFile sample_parseString sample_points)
qed

section \<open>A document without a track\<close>

text \<open>
  Claim C3. For every parsed document that has no \<^verbatim>\<open>trk\<close> element, \<^verbatim>\<open>getTrackPointsData\<close>
  rejects with StructureMismatch. \<^verbatim>\<open>GetMetadata\<close> on the same document is independent of
  that: it resolves exactly when the root element is \<^verbatim>\<open>gpx\<close>, and its outcome is the same
  for every document with the same root tag and the same \<^verbatim>\<open>metadata\<close> children, whatever
  tracks that document has.
\<close>

theorem no_track_element:
  assumes "readFile env path = Inr data"
    and "parseString env data = Inr (xml2js doc)"
    and "childrenNamed ''trk'' doc = []"
  shows "getTrackPointsData env path = Rejected StructureMismatch \<and>
         ((\<exists>m. GetMetadata env path = Resolved m) \<longleftrightarrow> tag doc = ''gpx'') \<and>
         (\<forall>env' path' data' doc'.
             readFile env' path' = Inr data' \<and> parseString env' data' = Inr (xml2js doc') \<and>
             tag doc' = tag doc \<and>
             childrenNamed ''metadata'' doc' = childrenNamed ''metadata'' doc \<longrightarrow>
             GetMetadata env' path' = GetMetadata env path)"
proof -
  have "firstSegmentPoints doc = None"
    using assms(3) by (simp add: firstSegmentPoints_def firstChild_def)
  then have a: "getTrackPointsData env path = Rejected StructureMismatch"
    using assms(1,2) by (simp add: getTrackPointsData_parsed trackPointsOf_document)
  have b: "(\<exists>m. GetMetadata env path = Resolved m) \<longleftrightarrow> tag doc = ''gpx''"
    using assms(1,2)
    by (auto simp: GetMetadata_parsed metadataOf_document split: option.splits)
  have c: "GetMetadata env' path' = GetMetadata env path"
    if "readFile env' path' = Inr data'" "parseString env' data' = Inr (xml2js doc')"
      "tag doc' = tag doc" "childrenNamed ''metadata'' doc' = childrenNamed ''metadata'' doc"
    for env' :: "('a, 'b) env" and path' data' doc'
    using that assms(1,2)
    by (simp add: GetMetadata_parsed metadataOf_document firstChild_def)
  show ?thesis using a b c by blast
qed

text \<open>The file \<^verbatim>\<open>notes.gpx\<close> has metadata and no track: no track points, the metadata of
  \<^verbatim>\<open>ride.gpx\<close>. The file \<^verbatim>\<open>places.kml\<close> has no track and no \<^verbatim>\<open>gpx\<close> root: both fail.\<close>

theorem no_track_element_witness:
  "getTrackPointsData sampleEnv ''notes.gpx'' = Rejected StructureMismatch \<and>
   (\<exists>m. GetMetadata sampleEnv ''notes.gpx'' = Resolved m) \<and>
   GetMetadata sampleEnv ''ride.gpx'' = GetMetadata sampleEnv ''notes.gpx'' \<and>
   getTrackPointsData sampleEnv ''places.kml'' = Rejected StructureMismatch \<and>
   \<not> (\<exists>m. GetMetadata sampleEnv ''places.kml'' = Resolved m)"
proof -
  have n: "childrenNamed ''trk'' notesDoc = []" "tag notesDoc = ''gpx''"
    by (simp_all add: childrenNamed_def notesDoc_def)
  have k: "childrenNamed ''trk'' placesDoc = []" "tag placesDoc \<noteq> ''gpx''"
    by (simp_all add: childrenNamed_def placesDoc_def)
  have s: "tag rideDoc = tag notesDoc"
    "childrenNamed ''metadata'' rideDoc = childrenNamed ''metadata'' notesDoc"
    by (simp_all add: childrenNamed_def rideDoc_def notesDoc_def)
  show ?thesis
    using no_track_element [OF sample_readFile(2) sample_parseString(2) n(1)]
      no_track_element [OF sample_readFile(8) sample_parseString(8) k(1)]
      n(2) k(2) s sample_readFile(1) sample_parseString(1)
    by blast
qed

section \<open>Latitude and longitude\<close>

text \<open>
  Claim C4, as the code has it. In every record that the callback produces, latitude and
  longitude are numbers, never the absent marker. For a track point that carries at
  least one attribute, reading \<^verbatim>\<open>lat\<close> and \<^verbatim>\<open>lon\<close> raises no error: the value is
  \<^verbatim>\<open>parseFloat\<close> of the attribute, the not-a-number marker when the attribute is missing,
  and the not-a-number marker exactly when its text has no numeric prefix. For a
  well-formed track point the record exists and holds these two values.
\<close>

theorem latitude_longitude_numbers:
  "(\<forall>n r. pointRecord env n = Some r \<longrightarrow> (\<exists>x y. lat r = JNum x \<and> lon r = JNum y)) \<and>
   (attributes p \<noteq> [] \<longrightarrow>
      (\<forall>k. coordinateOf env (xml2jsNode p) k =
             Some (case map_of (attributes p) k of
                     None \<Rightarrow> NaN | Some s \<Rightarrow> parseFloatStr s))) \<and>
   (wellFormedPoint p \<longrightarrow>
      (\<exists>r. pointRecord env (xml2jsNode p) = Some r \<and>
           lat r = JNum (case map_of (attributes p) ''lat'' of
                           None \<Rightarrow> NaN | Some s \<Rightarrow> parseFloatStr s) \<and>
           lon r = JNum (case map_of (attributes p) ''lon'' of
                           None \<Rightarrow> NaN | Some s \<Rightarrow> parseFloatStr s))) \<and>
   (\<forall>s. parseFloatStr s = NaN \<longleftrightarrow> \<not> hasNumericPrefix s)"
proof -
  have a: "\<exists>x y. lat r = JNum x \<and> lon r = JNum y" if "pointRecord env n = Some r" for n r
    using that by (rule pointRecord_fields(4))
  have b: "\<exists>r. pointRecord env (xml2jsNode p) = Some r \<and>
           lat r = JNum (case map_of (attributes p) ''lat'' of
                           None \<Rightarrow> NaN | Some s \<Rightarrow> parseFloatStr s) \<and>
           lon r = JNum (case map_of (attributes p) ''lon'' of
                           None \<Rightarrow> NaN | Some s \<Rightarrow> parseFloatStr s)"
    if wf: "wellFormedPoint p"
  proof -
    have at: "attributes p \<noteq> []" using wf by (simp add: wellFormedPoint_def)
    obtain el ts hr where "elevationOf env (xml2jsNode p) = Some el"
      "timestampOf env (xml2jsNode p) = Some ts" "heartRateOf env (xml2jsNode p) = Some hr"
      using wellFormedPoint_fields [OF wf, of env] by auto
    then show ?thesis by (simp add: pointRecord_attributes [OF at])
  qed
  have c: "parseFloatStr s = NaN \<longleftrightarrow> \<not> hasNumericPrefix s" for s
    by (rule parseFloatStr_NaN_iff)
  have d: "coordinateOf env (xml2jsNode p) k =
             Some (case map_of (attributes p) k of None \<Rightarrow> NaN | Some s \<Rightarrow> parseFloatStr s)"
    if "attributes p \<noteq> []" for k
    using that by (rule coordinateOf_attributes)
  show ?thesis using a b c d by blast
qed

text \<open>A track point with \<^verbatim>\<open>lat="north"\<close> and no \<^verbatim>\<open>lon\<close>: a record, with not-a-number
  twice.\<close>

theorem latitude_longitude_numbers_witness:
  "wellFormedPoint pointNoLon \<and> \<not> hasNumericPrefix ''north'' \<and>
   map_of (attributes pointNoLon) ''lon'' = None \<and>
   coordinateOf sampleEnv (xml2jsNode pointNoLon) ''lat'' = Some NaN \<and>
   coordinateOf sampleEnv (xml2jsNode pointNoLon) ''lon'' = Some NaN \<and>
   (\<exists>r. pointRecord sampleEnv (xml2jsNode pointNoLon) = Some r \<and>
        lat r = JNum NaN \<and> lon r = JNum NaN)"
proof -
  have h: "\<not> hasNumericPrefix ''north''"
    by (simp add: hasNumericPrefix_def startsNumeral_def isWhiteSpace_def isDigit_def)
  have at: "map_of (attributes pointNoLon) ''lat'' = Some ''north''"
    "map_of (attributes pointNoLon) ''lon'' = None"
    by (simp_all add: pointNoLon_def)
  have ne: "attributes pointNoLon \<noteq> []"
    by (simp add: pointNoLon_def)
  show ?thesis
    using latitude_longitude_numbers [of sampleEnv pointNoLon] sample_wellFormed(4) h at ne
    by auto
qed

text \<open>
  Claim C4 as stated fails where neither attribute is there: the track point of
  \<^verbatim>\<open>bare.gpx\<close> has no attributes, the parser's tree has no \<^verbatim>\<open>$\<close> member for it, reading
  \<^verbatim>\<open>point.$.lat\<close> throws and the promise is rejected.
\<close>

theorem latitude_longitude_counterexample:
  "readFile sampleEnv ''bare.gpx'' = Inr noAttributesText \<and>
   parseString sampleEnv noAttributesText = Inr (xml2js noAttributesDoc) \<and>
   firstSegmentPoints noAttributesDoc = Some [pointNoAttributes] \<and>
   map_of (attributes pointNoAttributes) ''lat'' = None \<and>
   getTrackPointsData sampleEnv ''bare.gpx'' = Rejected StructureMismatch"
proof -
  have "getTrackPointsData sampleEnv ''bare.gpx'' = Rejected StructureMismatch"
    by (simp add: getTrackPointsData_def loadAndParse_def sample_readFile sample_parseString
          trackPointsOf_def trackPointsPath_def xml2js_def noAttributesDoc_def
          pointNoAttributes_def pointRecord_def coordinateOf_def gpxAttributes_def)
  moreover have "map_of (attributes pointNoAttributes) ''lat'' = None"
    by (simp add: pointNoAttributes_def)
  ultimately show ?thesis
    by (simp add: sample_readFile sample_parseString sample_points)
qed

section \<open>Heart rate\<close>



section \<open>Metadata of a document without a metadata block\<close>

text \<open>
  Claim C6. For every GPX document without a \<^verbatim>\<open>metadata\<close> element, \<^verbatim>\<open>GetMetadata\<close>
  resolves, and the record it resolves with has \<^verbatim>\<open>name\<close>, \<^verbatim>\<open>desc\<close> and \<^verbatim>\<open>author\<close> all
  \<^verbatim>\<open>null\<close>.
\<close>

theorem no_metadata_block:
  assumes "readFile env path = Inr data"
    and "parseString env data = Inr (xml2js doc)"
    and "tag doc = ''gpx''"
    and "childrenNamed ''metadata'' doc = []"
  shows "GetMetadata env path = Resolved \<lparr>name = XNull, desc = XNull, author = XNull\<rparr>"
  using assms by (simp add: GetMetadata_parsed metadataOf_document firstChild_def)

theorem no_metadata_block_witness:
  "tag plainDoc = ''gpx'' \<and> childrenNamed ''metadata'' plainDoc = [] \<and>
   GetMetadata sampleEnv ''plain.gpx'' =
     Resolved \<lparr>name = XNull, desc = XNull, author = XNull\<rparr>"
proof -
  have d: "tag plainDoc = ''gpx''" "childrenNamed ''metadata'' plainDoc = []"
    by (simp_all add: childrenNamed_def plainDoc_def)
  show ?thesis
    using no_metadata_block [OF sample_readFile(3) sample_parseString(3) d] d by simp
qed

section \<open>Failures of the loader and of the parser\<close>

text \<open>
  Claim C7, as the code has it. For every path whose read fails, \<^verbatim>\<open>getTrackPointsData\<close>
  and \<^verbatim>\<open>GetMetadata\<close> both reject with DocumentUnreadable, carrying the loader's error;
  for every file that is read and on whose text the parser reports an error, both reject
  with MalformedDocument, carrying the parser's error. A text on which the parser reports
  no error is never rejected as MalformedDocument, well-formed or not: when the parser's
  result is \<^verbatim>\<open>null\<close>, its answer to a blank text, both functions reject with
  StructureMismatch.
\<close>

theorem failures_surface:
  "(readFile env path = Inl err \<longrightarrow>
      getTrackPointsData env path = Rejected (DocumentUnreadable err) \<and>
      GetMetadata env path = Rejected (DocumentUnreadable err)) \<and>
   (readFile env path = Inr data \<and> parseString env data = Inl perr \<longrightarrow>
      getTrackPointsData env path = Rejected (MalformedDocument perr) \<and>
      GetMetadata env path = Rejected (MalformedDocument perr)) \<and>
   (readFile env path = Inr data \<and> parseString env data = Inr result \<longrightarrow>
      (\<forall>e. getTrackPointsData env path \<noteq> Rejected (MalformedDocument e) \<and>
           GetMetadata env path \<noteq> Rejected (MalformedDocument e))) \<and>
   (readFile env path = Inr data \<and> parseString env data = Inr XNull \<longrightarrow>
      getTrackPointsData env path = Rejected StructureMismatch \<and>
      GetMetadata env path = Rejected StructureMismatch)"
  by (simp add: getTrackPointsData_def GetMetadata_def loadAndParse_def trackPointsOf_def
        trackPointsPath_def metadataOf_def split: option.splits)

text \<open>A path that is not in the sample directory, a file whose root tag is never
  closed, and a blank file.\<close>

theorem failures_surface_witness:
  "getTrackPointsData sampleEnv ''missing.gpx'' = Rejected (DocumentUnreadable ''ENOENT'') \<and>
   GetMetadata sampleEnv ''missing.gpx'' = Rejected (DocumentUnreadable ''ENOENT'') \<and>
   getTrackPointsData sampleEnv ''broken.gpx''
     = Rejected (MalformedDocument ''Unclosed root tag'') \<and>
   GetMetadata sampleEnv ''broken.gpx'' = Rejected (MalformedDocument ''Unclosed root tag'') \<and>
   getTrackPointsData sampleEnv ''blank.gpx'' = Rejected StructureMismatch \<and>
   GetMetadata sampleEnv ''blank.gpx'' = Rejected StructureMismatch"
  using failures_surface [of sampleEnv "''missing.gpx''" "''ENOENT''"]
    failures_surface [of sampleEnv "''broken.gpx''" _ brokenText "''Unclosed root tag''"]
    failures_surface [of sampleEnv "''blank.gpx''" _ blankText]
    sample_readFile(9,10,11) sample_parseString(9,10)
  by blast

text \<open>
  Claim C7 as stated fails on a text that is not well-formed XML and on which the parser
  reports no error: \<^verbatim>\<open>blank.gpx\<close> holds white space only, the parser's result is \<^verbatim>\<open>null\<close>,
  reading \<^verbatim>\<open>result.gpx\<close> throws, and both promises are rejected with the TypeError, not
  with a failure of the parser.
\<close>

theorem failures_surface_counterexample:
  "list_all isWhiteSpace blankText \<and>
   readFile sampleEnv ''blank.gpx'' = Inr blankText \<and>
   parseString sampleEnv blankText = Inr XNull \<and>
   getTrackPointsData sampleEnv ''blank.gpx'' = Rejected StructureMismatch \<and>
   GetMetadata sampleEnv ''blank.gpx'' = Rejected StructureMismatch"
proof -
  have "getTrackPointsData sampleEnv ''blank.gpx'' = Rejected StructureMismatch"
    by (simp add: getTrackPointsData_def loadAndParse_def sample_readFile sample_parseString
          trackPointsOf_def trackPointsPath_def)
  moreover have "GetMetadata sampleEnv ''blank.gpx'' = Rejected StructureMismatch"
    by (simp add: GetMetadata_def loadAndParse_def sample_readFile sample_parseString
          metadataOf_def)
  moreover have "list_all isWhiteSpace blankText"
    by (simp add: blankText_def isWhiteSpace_def)
  ultimately show ?thesis
    by (simp add: sample_readFile sample_parseString)
qed

section \<open>Elevation and time stamp\<close>

text \<open>
  Claim C8. In the record of every track point: without an \<^verbatim>\<open>ele\<close> child the elevation is
  absent, and with an \<^verbatim>\<open>ele\<close> child of text 123.4 it is the number 123.4; without a
  \<^verbatim>\<open>time\<close> child the time stamp is absent, and with a \<^verbatim>\<open>time\<close> child that has text (not
  white space only) it is a string, the rendering of that instant in the process's locale. Every well-formed track
  point has a record.
\<close>

theorem elevation_and_timestamp:
  "(\<forall>r. pointRecord env (xml2jsNode p) = Some r \<longrightarrow>
      (firstChild ''ele'' p = None \<longrightarrow> elevation r = JNull) \<and>
      (\<forall>e. firstChild ''ele'' p = Some e \<and> textOnly e \<and> chardata e = ''123.4'' \<longrightarrow>
           elevation r = JNum (Finite (1234 / 10))) \<and>
      (firstChild ''time'' p = None \<longrightarrow> timestamp r = JNull) \<and>
      (\<forall>t. firstChild ''time'' p = Some t \<and> textOnly t \<and>
           \<not> list_all isWhiteSpace (chardata t) \<longrightarrow>
           timestamp r = JStr (dateToLocaleString env (chardata t)))) \<and>
   (wellFormedPoint p \<longrightarrow> pointRecord env (xml2jsNode p) \<noteq> None)"
proof -
  have v: "parseFloatStr ''123.4'' = Finite (1234 / 10)"
    by (simp add: parseFloatStr_def isWhiteSpace_def isDigit_def digitsVal_def digitVal_def)
  have a: "elevation r = JNull"
    if "pointRecord env (xml2jsNode p) = Some r" "firstChild ''ele'' p = None" for r
    using pointRecord_fields(1) [OF that(1)] that(2) by (simp add: elevationOf_element)
  have b: "elevation r = JNum (Finite (1234 / 10))"
    if "pointRecord env (xml2jsNode p) = Some r" "firstChild ''ele'' p = Some e"
      "textOnly e" "chardata e = ''123.4''" for r e
    using pointRecord_fields(1) [OF that(1)] that(2-4) v
    by (simp add: elevationOf_element textOnly_node)
  have c: "timestamp r = JNull"
    if "pointRecord env (xml2jsNode p) = Some r" "firstChild ''time'' p = None" for r
    using pointRecord_fields(2) [OF that(1)] that(2) by (simp add: timestampOf_element)
  have d: "timestamp r = JStr (dateToLocaleString env (chardata t))"
    if "pointRecord env (xml2jsNode p) = Some r" "firstChild ''time'' p = Some t"
      "textOnly t" "\<not> list_all isWhiteSpace (chardata t)" for r t
  proof -
    have "chardata t \<noteq> []" using that(4) by auto
    then show ?thesis
      using pointRecord_fields(2) [OF that(1)] that(2,3)
      by (simp add: timestampOf_element textOnly_node)
  qed
  show ?thesis using a b c d wellFormedPoint_record [of p env] by blast
qed

text \<open>The two track points of \<^verbatim>\<open>ride.gpx\<close>: the first with \<^verbatim>\<open><ele>123.4</ele>\<close> and
  \<^verbatim>\<open><time>2024-01-01T10:00:00Z</time>\<close>, the second with neither.\<close>

theorem elevation_and_timestamp_witness:
  "(\<exists>r. pointRecord sampleEnv (xml2jsNode pointFull) = Some r \<and>
        elevation r = JNum (Finite (1234 / 10)) \<and>
        timestamp r = JStr ''1/1/2024, 10:00:00 AM'') \<and>
   (\<exists>r. pointRecord sampleEnv (xml2jsNode pointPlain) = Some r \<and>
        elevation r = JNull \<and> timestamp r = JNull)"
proof -
  define el where "el = Element ''ele'' [] ''123.4'' []"
  define tm where "tm = Element ''time'' [] ''2024-01-01T10:00:00Z'' []"
  have full: "firstChild ''ele'' pointFull = Some el" "textOnly el" "chardata el = ''123.4''"
    "firstChild ''time'' pointFull = Some tm" "textOnly tm"
    "\<not> list_all isWhiteSpace (chardata tm)"
    "dateToLocaleString sampleEnv (chardata tm) = ''1/1/2024, 10:00:00 AM''"
    by (simp_all add: navigation_defs pointFull_def el_def tm_def sample_locale
          isWhiteSpace_def)
  have plain: "firstChild ''ele'' pointPlain = None" "firstChild ''time'' pointPlain = None"
    by (simp_all add: navigation_defs pointPlain_def)
  obtain r1 where r1: "pointRecord sampleEnv (xml2jsNode pointFull) = Some r1"
    using elevation_and_timestamp [of sampleEnv pointFull] sample_wellFormed(1) by blast
  obtain r2 where r2: "pointRecord sampleEnv (xml2jsNode pointPlain) = Some r2"
    using elevation_and_timestamp [of sampleEnv pointPlain] sample_wellFormed(2) by blast
  have "elevation r1 = JNum (Finite (1234 / 10))"
    using elevation_and_timestamp [of sampleEnv pointFull] r1 full(1-3) by blast
  moreover have "timestamp r1 = JStr ''1/1/2024, 10:00:00 AM''"
    using elevation_and_timestamp [of sampleEnv pointFull] r1 full(4-7) by metis
  moreover have "elevation r2 = JNull \<and> timestamp r2 = JNull"
    using elevation_and_timestamp [of sampleEnv pointPlain] r2 plain by blast
  ultimately show ?thesis using r1 r2 by blast
qed

section \<open>Calling twice\<close>

text \<open>
  Claim C9. The outcome of either function is settled by the contents of the file (and
  by the parser and the locale of the process): two calls, made in two states of the
  world in which the file reads the same, settle the same way. The functions keep
  nothing from one call to the next; there is no state to model but the environment.
\<close>

theorem same_contents_same_outcome:
  assumes "readFile env1 path1 = readFile env2 path2"
    and "parseString env1 = parseString env2"
    and "objectToString env1 = objectToString env2"
    and "dateToLocaleString env1 = dateToLocaleString env2"
  shows "getTrackPointsData env1 path1 = getTrackPointsData env2 path2 \<and>
         GetMetadata env1 path1 = GetMetadata env2 path2"
proof -
  have body: "trackPointsOf env1 = trackPointsOf env2"
    unfolding trackPointsOf_def pointRecord_cong_env [OF assms(3,4)] by (rule refl)
  show ?thesis
    unfolding getTrackPointsData_def GetMetadata_def loadAndParse_def body assms(1) assms(2)
    by simp
qed

text \<open>\<^verbatim>\<open>ride.gpx\<close> read again after another file has been added to the directory, and
  the added copy itself.\<close>

theorem same_contents_same_outcome_witness:
  "getTrackPointsData sampleEnv ''ride.gpx'' = getTrackPointsData laterEnv ''ride.gpx'' \<and>
   GetMetadata sampleEnv ''ride.gpx'' = GetMetadata laterEnv ''ride.gpx'' \<and>
   getTrackPointsData sampleEnv ''ride.gpx'' = getTrackPointsData laterEnv ''copy.gpx'' \<and>
   GetMetadata sampleEnv ''ride.gpx'' = GetMetadata laterEnv ''copy.gpx''"
proof -
  have a: "readFile sampleEnv ''ride.gpx'' = readFile laterEnv ''ride.gpx''"
    "readFile sampleEnv ''ride.gpx'' = readFile laterEnv ''copy.gpx''"
    by (simp_all add: laterEnv_def sample_readFile)
  have b: "parseString sampleEnv = parseString laterEnv"
    "objectToString sampleEnv = objectToString laterEnv"
    "dateToLocaleString sampleEnv = dateToLocaleString laterEnv"
    by (simp_all add: laterEnv_def)
  show ?thesis
    using same_contents_same_outcome [OF a(1) b] same_contents_same_outcome [OF a(2) b]
    by simp
qed

section \<open>Elements that are there but empty\<close>

text \<open>
  Claim C10. For every track point whose \<^verbatim>\<open>ele\<close> (or \<^verbatim>\<open>time\<close>) child is there but empty,
  the record has an absent elevation (time stamp), and the outcome for the point is
  exactly the outcome for the same point with the child taken out; likewise for an
  empty heart-rate element under a well-nested \<^verbatim>\<open>extensions\<close> child, the heart rate is
  absent and the outcome is that of the point without extensions. Every well-formed
  track point has a record.
\<close>

theorem empty_text_is_absent:
  "(\<forall>e. firstChild ''ele'' p = Some e \<and> textOnly e \<and> chardata e = [] \<longrightarrow>
      (\<forall>r. pointRecord env (xml2jsNode p) = Some r \<longrightarrow> elevation r = JNull) \<and>
      pointRecord env (xml2jsNode p) = pointRecord env (xml2jsNode (withoutChildren ''ele'' p))) \<and>
   (\<forall>t. firstChild ''time'' p = Some t \<and> textOnly t \<and> chardata t = [] \<longrightarrow>
      (\<forall>r. pointRecord env (xml2jsNode p) = Some r \<longrightarrow> timestamp r = JNull) \<and>
      pointRecord env (xml2jsNode p) = pointRecord env (xml2jsNode (withoutChildren ''time'' p))) \<and>
   (\<forall>x h. firstChild ''extensions'' p = Some x \<and> heartRateElement x = Some h \<and>
          textOnly h \<and> chardata h = [] \<longrightarrow>
      (\<forall>r. pointRecord env (xml2jsNode p) = Some r \<longrightarrow> heartRate r = JNull) \<and>
      pointRecord env (xml2jsNode p)
        = pointRecord env (xml2jsNode (withoutChildren ''extensions'' p))) \<and>
   (wellFormedPoint p \<longrightarrow> pointRecord env (xml2jsNode p) \<noteq> None)"
proof -
  note field = elevationOf_element timestampOf_element heartRateOf_element
    firstChild_withoutChildren textOnly_node
  have a: "elevation r = JNull"
    if "pointRecord env (xml2jsNode p) = Some r" "firstChild ''ele'' p = Some e"
      "textOnly e" "chardata e = []" for r e
    using pointRecord_fields(1) [OF that(1)] that(2-4) by (simp add: field)
  have a': "pointRecord env (xml2jsNode p) = pointRecord env (xml2jsNode (withoutChildren ''ele'' p))"
    if "firstChild ''ele'' p = Some e" "textOnly e" "chardata e = []" for e
    by (rule sym, rule pointRecord_withoutChildren) (simp_all add: field that)
  have b: "timestamp r = JNull"
    if "pointRecord env (xml2jsNode p) = Some r" "firstChild ''time'' p = Some t"
      "textOnly t" "chardata t = []" for r t
    using pointRecord_fields(2) [OF that(1)] that(2-4) by (simp add: field)
  have b': "pointRecord env (xml2jsNode p) = pointRecord env (xml2jsNode (withoutChildren ''time'' p))"
    if "firstChild ''time'' p = Some t" "textOnly t" "chardata t = []" for t
    by (rule sym, rule pointRecord_withoutChildren) (simp_all add: field that)
  have c: "heartRate r = JNull"
    if "pointRecord env (xml2jsNode p) = Some r" "firstChild ''extensions'' p = Some x"
      "heartRateElement x = Some h" "textOnly h" "chardata h = []" for r x h
    using pointRecord_fields(3) [OF that(1)] that(2-5) by (simp add: field)
  have c': "pointRecord env (xml2jsNode p)
              = pointRecord env (xml2jsNode (withoutChildren ''extensions'' p))"
    if "firstChild ''extensions'' p = Some x" "heartRateElement x = Some h"
      "textOnly h" "chardata h = []" for x h
    by (rule sym, rule pointRecord_withoutChildren) (simp_all add: field that)
  show ?thesis using a a' b b' c c' wellFormedPoint_record [of p env] by blast
qed

text \<open>A track point with \<^verbatim>\<open><ele/>\<close>, \<^verbatim>\<open><time/>\<close> and an empty \<^verbatim>\<open><gpxtpx:hr/>\<close>: all three
  fields absent, as for the point with the three children taken out.\<close>

theorem empty_text_is_absent_witness:
  "(\<exists>r. pointRecord sampleEnv (xml2jsNode pointEmptyFields) = Some r \<and>
        elevation r = JNull \<and> timestamp r = JNull \<and> heartRate r = JNull) \<and>
   pointRecord sampleEnv (xml2jsNode pointEmptyFields)
     = pointRecord sampleEnv (xml2jsNode (withoutChildren ''ele'' pointEmptyFields)) \<and>
   pointRecord sampleEnv (xml2jsNode pointEmptyFields)
     = pointRecord sampleEnv (xml2jsNode (withoutChildren ''time'' pointEmptyFields)) \<and>
   pointRecord sampleEnv (xml2jsNode pointEmptyFields)
     = pointRecord sampleEnv (xml2jsNode (withoutChildren ''extensions'' pointEmptyFields))"
proof -
  define el where "el = Element ''ele'' [] '''' []"
  define tm where "tm = Element ''time'' [] '''' []"
  define hr where "hr = Element ''gpxtpx:hr'' [] '''' []"
  define ex where "ex = Element ''extensions'' [] ''''
    [Element ''gpxtpx:TrackPointExtension'' [] '''' [hr]]"
  have e: "firstChild ''ele'' pointEmptyFields = Some el" "textOnly el" "chardata el = []"
    by (simp_all add: navigation_defs pointEmptyFields_def el_def)
  have t: "firstChild ''time'' pointEmptyFields = Some tm" "textOnly tm" "chardata tm = []"
    by (simp_all add: navigation_defs pointEmptyFields_def tm_def)
  have h: "firstChild ''extensions'' pointEmptyFields = Some ex" "heartRateElement ex = Some hr"
    "textOnly hr" "chardata hr = []"
    by (simp_all add: navigation_defs pointEmptyFields_def ex_def hr_def)
  obtain r where r: "pointRecord sampleEnv (xml2jsNode pointEmptyFields) = Some r"
    using empty_text_is_absent [of pointEmptyFields sampleEnv] sample_wellFormed(3) by blast
  have "elevation r = JNull"
    using empty_text_is_absent [of pointEmptyFields sampleEnv] r e by blast
  moreover have "timestamp r = JNull"
    using empty_text_is_absent [of pointEmptyFields sampleEnv] r t by blast
  moreover have "heartRate r = JNull"
    using empty_text_is_absent [of pointEmptyFields sampleEnv] r h by blast
  moreover have "pointRecord sampleEnv (xml2jsNode pointEmptyFields)
     = pointRecord sampleEnv (xml2jsNode (withoutChildren ''ele'' pointEmptyFields))"
    using empty_text_is_absent [of pointEmptyFields sampleEnv] e by blast
  moreover have "pointRecord sampleEnv (xml2jsNode pointEmptyFields)
     = pointRecord sampleEnv (xml2jsNode (withoutChildren ''time'' pointEmptyFields))"
    using empty_text_is_absent [of pointEmptyFields sampleEnv] t by blast
  moreover have "pointRecord sampleEnv (xml2jsNode pointEmptyFields)
     = pointRecord sampleEnv (xml2jsNode (withoutChildren ''extensions'' pointEmptyFields))"
    using empty_text_is_absent [of pointEmptyFields sampleEnv] h by blast
  ultimately show ?thesis using r by blast
qed

end
